theory Spec2Isabelle
  imports Main
begin

section \<open>JavaScript strings\<close>

text \<open>
  A JavaScript string is modelled as a \<^typ>\<open>string\<close>, one character per code unit,
  for the code units below 256. The operations below are the
  \<^verbatim>\<open>String.prototype\<close> methods the handlers call.
\<close>

definition startsWith :: "string \<Rightarrow> string \<Rightarrow> bool" where
  "startsWith s p = (take (length p) s = p)"

text \<open>\<^verbatim>\<open>s.indexOf(p)\<close>: the smallest position at which \<open>p\<close> occurs, \<open>None\<close> for \<open>-1\<close>.\<close>

fun indexOf :: "string \<Rightarrow> string \<Rightarrow> nat option" where
  "indexOf [] p = (if p = [] then Some 0 else None)"
| "indexOf (c # cs) p =
     (if startsWith (c # cs) p then Some 0 else map_option Suc (indexOf cs p))"

definition includes_str :: "string \<Rightarrow> string \<Rightarrow> bool" where
  "includes_str s p = (indexOf s p \<noteq> None)"

text \<open>
  \<^verbatim>\<open>s.substring(a, b)\<close>: both arguments are clamped to the length of \<open>s\<close> and
  swapped when the first is the larger.
\<close>

definition substring :: "string \<Rightarrow> nat \<Rightarrow> nat \<Rightarrow> string" where
  "substring s a b =
     (let finalStart = min a (length s);
          finalEnd = min b (length s);
          lo = min finalStart finalEnd;
          hi = max finalStart finalEnd
      in take (hi - lo) (drop lo s))"

text \<open>White space and line terminators that \<^verbatim>\<open>trim\<close> strips, among the characters of the model.\<close>

definition isWhiteSpace :: "char \<Rightarrow> bool" where
  "isWhiteSpace c = (of_char c \<in> {9, 10, 11, 12, 13, 32, 160 :: nat})"

definition trim :: "string \<Rightarrow> string" where
  "trim s = rev (dropWhile isWhiteSpace (rev (dropWhile isWhiteSpace s)))"

definition isLetter :: "char \<Rightarrow> bool" where
  "isLetter c = (let n = of_char c :: nat in (65 \<le> n \<and> n \<le> 90) \<or> (97 \<le> n \<and> n \<le> 122))"

definition isLetterOrDigit :: "char \<Rightarrow> bool" where
  "isLetterOrDigit c = (isLetter c \<or> (let n = of_char c :: nat in 48 \<le> n \<and> n \<le> 57))"

text \<open>
  \<^verbatim>\<open>s.match(/<([a-zA-Z][a-zA-Z0-9]*)/)\<close>: the matcher tries each position from the left;
  at the first \<open><\<close> that a letter follows, the group captures that letter and the
  longest run of letters and digits after it. \<open>None\<close> is the \<^verbatim>\<open>null\<close> of no match.
\<close>

fun matchTag :: "string \<Rightarrow> string option" where
  "matchTag [] = None"
| "matchTag [c] = None"
| "matchTag (c # d # cs) =
     (if c = CHR ''<'' \<and> isLetter d then Some (d # takeWhile isLetterOrDigit cs)
      else matchTag (d # cs))"

section \<open>JavaScript values\<close>

text \<open>
  The values a request body can hold (\<^verbatim>\<open>req.body\<close> has type \<^verbatim>\<open>any\<close>): what a body
  parser produces. Numbers are the integral ones; an object lists its own properties in
  enumeration order, and its flag tells whether it inherits from \<^verbatim>\<open>Object.prototype\<close>
  (a parsed query string does not); a \<^verbatim>\<open>Buffer\<close> is given by its bytes, one
  character each.
\<close>

datatype jsval =
    JUndefined
  | JNull
  | JBool bool
  | JNum int
  | JStr string
  | JArr "jsval list"
  | JObj bool "(string \<times> jsval) list"
  | JBuffer string

fun typeof :: "jsval \<Rightarrow> string" where
  "typeof JUndefined = ''undefined''"
| "typeof JNull = ''object''"
| "typeof (JBool b) = ''boolean''"
| "typeof (JNum n) = ''number''"
| "typeof (JStr s) = ''string''"
| "typeof (JArr xs) = ''object''"
| "typeof (JObj proto fs) = ''object''"
| "typeof (JBuffer t) = ''object''"

text \<open>Truthiness, as \<^verbatim>\<open>if (v)\<close>, \<^verbatim>\<open>!v\<close> and \<^verbatim>\<open>v || w\<close> test it.\<close>

fun truthy :: "jsval \<Rightarrow> bool" where
  "truthy JUndefined = False"
| "truthy JNull = False"
| "truthy (JBool b) = b"
| "truthy (JNum n) = (n \<noteq> 0)"
| "truthy (JStr s) = (s \<noteq> [])"
| "truthy (JArr xs) = True"
| "truthy (JObj proto fs) = True"
| "truthy (JBuffer t) = True"

text \<open>What is thrown: an \<^verbatim>\<open>Error\<close> with its message, or some other value.\<close>

datatype thrown = Error string | NonError

subsection \<open>Numbers and strings as text\<close>

definition digitChar :: "nat \<Rightarrow> char" where
  "digitChar n = ''0123456789'' ! (n mod 10)"

fun showNat :: "nat \<Rightarrow> string" where
  "showNat n = (if n < 10 then [digitChar n] else showNat (n div 10) @ [digitChar n])"

text \<open>
  An integer with all its digits. JavaScript prints a number so only below
  \<open>10\<^sup>2\<^sup>1\<close> in magnitude, so this is not how the handlers turn a number into text:
  that is the runtime's \<open>Number_toString\<close> below. It serves the example runtime,
  whose numbers are small.
\<close>

definition showInt :: "int \<Rightarrow> string" where
  "showInt i = (if i < 0 then CHR ''-'' # showNat (nat (- i)) else showNat (nat i))"

text \<open>
  What the runtime gives for the two conversions that depend on more than the model
  holds: the text of a number (\<^verbatim>\<open>Number.prototype.toString\<close>, with its exponent form
  for large numbers) and the text of a \<^verbatim>\<open>Buffer\<close>
  (\<^verbatim>\<open>buf.toString('utf8')\<close>, the decoding of its bytes).
\<close>

record conversions =
  Number_toString :: "int \<Rightarrow> string"
  Buffer_toString :: "string \<Rightarrow> string"

definition hexChar :: "nat \<Rightarrow> char" where
  "hexChar n = ''0123456789abcdef'' ! (n mod 16)"

text \<open>\<^verbatim>\<open>xs.join(sep)\<close> on strings.\<close>

fun join :: "string \<Rightarrow> string list \<Rightarrow> string" where
  "join sep [] = []"
| "join sep [x] = x"
| "join sep (x # y # ys) = x @ sep @ join sep (y # ys)"

subsection \<open>\<^verbatim>\<open>JSON.stringify(v, null, 2)\<close>\<close>

definition quoteChar :: "char \<Rightarrow> string" where
  "quoteChar c =
     (let n = of_char c :: nat in
      if c = CHR 0x22 then [CHR 0x5C, CHR 0x22]
      else if c = CHR 0x5C then [CHR 0x5C, CHR 0x5C]
      else if n = 8 then [CHR 0x5C, CHR ''b'']
      else if n = 12 then [CHR 0x5C, CHR ''f'']
      else if n = 10 then [CHR 0x5C, CHR ''n'']
      else if n = 13 then [CHR 0x5C, CHR ''r'']
      else if n = 9 then [CHR 0x5C, CHR ''t'']
      else if n < 32 then [CHR 0x5C, CHR ''u'', CHR ''0'', CHR ''0'', hexChar (n div 16), hexChar n]
      else [c])"

definition quote :: "string \<Rightarrow> string" where
  "quote s = CHR 0x22 # concat (map quoteChar s) @ [CHR 0x22]"

text \<open>
  An array or object with members is laid out one member per line, indented by two
  spaces more than its opening bracket; an empty one is the two brackets.
\<close>

definition block :: "char \<Rightarrow> char \<Rightarrow> string \<Rightarrow> string list \<Rightarrow> string" where
  "block opening closing indent partial =
     (if partial = [] then [opening, closing]
      else opening # CHR 0x0A # (indent @ ''  '')
           @ join (CHR '','' # CHR 0x0A # (indent @ ''  '')) partial
           @ CHR 0x0A # indent @ [closing])"

text \<open>
  \<open>None\<close> is the \<^verbatim>\<open>undefined\<close> that serialising \<^verbatim>\<open>undefined\<close> gives: such a
  property is left out of an object, and such an element is \<^verbatim>\<open>null\<close> in an array.
  A \<^verbatim>\<open>Buffer\<close> is serialised through its \<^verbatim>\<open>toJSON\<close>, which lists its bytes.
\<close>

fun serialize :: "'z conversions_scheme \<Rightarrow> string \<Rightarrow> jsval \<Rightarrow> string option" where
  "serialize rt indent JUndefined = None"
| "serialize rt indent JNull = Some ''null''"
| "serialize rt indent (JBool b) = Some (if b then ''true'' else ''false'')"
| "serialize rt indent (JNum n) = Some (Number_toString rt n)"
| "serialize rt indent (JStr s) = Some (quote s)"
| "serialize rt indent (JArr xs) =
     Some (block CHR ''['' CHR '']'' indent
       (map (\<lambda>v. case serialize rt (indent @ ''  '') v of None \<Rightarrow> ''null'' | Some t \<Rightarrow> t) xs))"
| "serialize rt indent (JObj proto fs) =
     Some (block CHR ''{'' CHR ''}'' indent
       (concat (map (\<lambda>kv. case serialize rt (indent @ ''  '') (snd kv) of
                             None \<Rightarrow> []
                           | Some t \<Rightarrow> [quote (fst kv) @ '': '' @ t]) fs)))"
| "serialize rt indent (JBuffer bytes) =
     Some (block CHR ''{'' CHR ''}'' indent
       [quote ''type'' @ '': '' @ quote ''Buffer'',
        quote ''data'' @ '': '' @
          block CHR ''['' CHR '']'' (indent @ ''  '') (map (\<lambda>c. showNat (of_char c)) bytes)])"

definition JSON_stringify :: "'z conversions_scheme \<Rightarrow> jsval \<Rightarrow> string option" where
  "JSON_stringify rt v = serialize rt [] v"

subsection \<open>\<^verbatim>\<open>toString\<close>\<close>

text \<open>
  The conversion of a value to a string, as joining an array applies it to the
  elements. \<open>None\<close> is the \<^verbatim>\<open>TypeError\<close> of an object that has no callable
  \<^verbatim>\<open>toString\<close> or \<^verbatim>\<open>valueOf\<close> giving a primitive: own properties are data, never
  functions.
\<close>

fun sequence :: "'a option list \<Rightarrow> 'a list option" where
  "sequence [] = Some []"
| "sequence (None # xs) = None"
| "sequence (Some x # xs) = map_option ((#) x) (sequence xs)"

fun ToString :: "'z conversions_scheme \<Rightarrow> jsval \<Rightarrow> string option" where
  "ToString rt JUndefined = Some ''undefined''"
| "ToString rt JNull = Some ''null''"
| "ToString rt (JBool b) = Some (if b then ''true'' else ''false'')"
| "ToString rt (JNum n) = Some (Number_toString rt n)"
| "ToString rt (JStr s) = Some s"
| "ToString rt (JArr xs) =
     map_option (join '','')
       (sequence (map (\<lambda>v. if v = JUndefined \<or> v = JNull then Some [] else ToString rt v) xs))"
| "ToString rt (JObj proto fs) =
     (if proto \<and> map_of fs ''toString'' = None then Some ''[object Object]'' else None)"
| "ToString rt (JBuffer bytes) = Some (Buffer_toString rt bytes)"

text \<open>What reading the property \<^verbatim>\<open>toString\<close> of an object gives.\<close>

datatype property = Absent | Data jsval | Method

fun get_toString :: "jsval \<Rightarrow> property" where
  "get_toString (JObj proto fs) =
     (case map_of fs ''toString'' of
        Some v \<Rightarrow> Data v
      | None \<Rightarrow> if proto then Method else Absent)"
| "get_toString v = Method"

section \<open>Requests, responses and the runtime\<close>

text \<open>
  The request as the handlers read it: \<^verbatim>\<open>req.method\<close>, \<^verbatim>\<open>req.url\<close>, the headers
  under their lower-case names, the query, \<^verbatim>\<open>req.body\<close> as the body parser left it,
  \<^verbatim>\<open>req.connection?.remoteAddress\<close>, and the chunks the request stream has not
  delivered yet.
\<close>

record request =
  req_method :: string
  req_url :: string
  req_headers :: "(string \<times> string) list"
  req_query :: "(string \<times> string) list"
  req_body :: jsval
  remoteAddress :: "string option"
  unread :: "string list"

definition header :: "request \<Rightarrow> string \<Rightarrow> string option" where
  "header req name = map_of (req_headers req) name"

text \<open>\<^verbatim>\<open>a || b\<close> on values that are a string or \<^verbatim>\<open>undefined\<close>.\<close>

definition or_else :: "string option \<Rightarrow> string option \<Rightarrow> string option" where
  "or_else a b = (case a of Some s \<Rightarrow> if s \<noteq> [] then Some s else b | None \<Rightarrow> b)"

text \<open>\<^verbatim>\<open>req.headers['content-type'] || ''\<close>\<close>

definition contentType_of :: "request \<Rightarrow> string" where
  "contentType_of req = (case or_else (header req ''content-type'') (Some []) of Some s \<Rightarrow> s | None \<Rightarrow> [])"

text \<open>\<^verbatim>\<open>rawBody || null\<close>\<close>

definition or_null :: "string \<Rightarrow> string option" where
  "or_null s = (if s \<noteq> [] then Some s else None)"

record FirestoreResult =
  success :: bool
  documentId :: "string option"
  message :: string
  error :: "string option"

text \<open>
  The body a handler sends: nothing (\<^verbatim>\<open>res.end()\<close>), or one of the three JSON
  objects: the method error \<^verbatim>\<open>{error, allowedMethod, receivedMethod}\<close>, the envelope
  \<^verbatim>\<open>{success, message, data, firestore}\<close>, and the failure
  \<^verbatim>\<open>{success, error, message}\<close>.
\<close>

datatype 'd payload =
    End
  | MethodError string string string
  | Envelope bool string 'd FirestoreResult
  | Failure bool string string

record 'd response =
  statusCode :: nat
  setHeader :: "(string \<times> string) list"
  payload :: "'d payload"

text \<open>The document handed to Firestore: the record, spread, and the fields added to it.\<close>

record 'd document =
  capturedData :: 'd
  createdAt :: nat
  requestId :: string
  collectionType :: "string option"

text \<open>
  What a handler reads from outside the request: the two conversions above, the clock
  (\<^verbatim>\<open>Date.now()\<close> is a number), the random number as
  \<^verbatim>\<open>toString(36)\<close> prints it, the two parsers (\<open>None\<close> when they throw) and the
  write \<^verbatim>\<open>db.collection('api_requests').add\<close>, which returns the id of the new
  document or throws. The connection \<^verbatim>\<open>db\<close> is made when the module is loaded, before
  any request; a handler that runs has it.
\<close>

record 'd runtime = conversions +
  toISOString :: string
  new_Date :: nat
  Date_now :: int
  random36 :: string
  JSON_parse :: "string \<Rightarrow> jsval option"
  fromEntries :: "string \<Rightarrow> jsval option"
  add :: "'d document \<Rightarrow> thrown + string"

text \<open>
  What a call of a handler does: the response it sends, the writes it makes, and
  whether it has put listeners on the request stream.
\<close>

record 'd outcome =
  response :: "'d response"
  writes :: "'d document list"
  listening :: bool

definition methodNotAllowed :: "request \<Rightarrow> 'd outcome" where
  "methodNotAllowed req =
     \<lparr>response = \<lparr>statusCode = 405, setHeader = [],
        payload = MethodError ''Method not allowed. Only POST requests are accepted.''
                    ''POST'' (req_method req)\<rparr>,
      writes = [], listening = False\<rparr>"

text \<open>The outer \<^verbatim>\<open>catch\<close>. Whatever throws does so before a header is set.\<close>

definition internalError :: "thrown \<Rightarrow> 'd outcome" where
  "internalError e =
     \<lparr>response = \<lparr>statusCode = 500, setHeader = [],
        payload = Failure False ''Internal server error''
                    (case e of Error m \<Rightarrow> m | NonError \<Rightarrow> ''Unknown error'')\<rparr>,
      writes = [], listening = False\<rparr>"

definition cors :: "(string \<times> string) list" where
  "cors = [(''Access-Control-Allow-Origin'', ''*''),
           (''Access-Control-Allow-Methods'', ''POST, OPTIONS''),
           (''Access-Control-Allow-Headers'', ''Content-Type'')]"

text \<open>The document of a record: the record, the time of the write and a fresh id.\<close>

definition document_of :: "'d runtime \<Rightarrow> 'd \<Rightarrow> string option \<Rightarrow> 'd document" where
  "document_of env d ctype =
     \<lparr>capturedData = d, createdAt = new_Date env,
      requestId = Number_toString env (Date_now env) @ ''-'' @ take 9 (drop 2 (random36 env)),
      collectionType = ctype\<rparr>"

text \<open>The inner \<^verbatim>\<open>try\<close>/\<^verbatim>\<open>catch\<close> around the write.\<close>

definition firestoreResult_of :: "'d runtime \<Rightarrow> 'd document \<Rightarrow> string \<Rightarrow> FirestoreResult" where
  "firestoreResult_of env doc saved =
     (case add env doc of
        Inr docRef \<Rightarrow>
          \<lparr>success = True, documentId = Some docRef, message = saved, error = None\<rparr>
      | Inl firestoreError \<Rightarrow>
          \<lparr>success = False, documentId = None,
           message = (case firestoreError of Error m \<Rightarrow> m
                      | NonError \<Rightarrow> ''Unknown Firestore error''),
           error = Some ''Failed to save to Firestore''\<rparr>)"

text \<open>
  The write and the response after it: the outer envelope does not depend on how the
  write ended.
\<close>

definition save :: "'d runtime \<Rightarrow> 'd \<Rightarrow> string option \<Rightarrow> string \<Rightarrow> string \<Rightarrow> 'd outcome" where
  "save env d ctype saved msg =
     (let doc = document_of env d ctype;
          firestoreResult = firestoreResult_of env doc saved
      in \<lparr>response = \<lparr>statusCode = 200, setHeader = cors,
              payload = Envelope True msg d firestoreResult\<rparr>,
          writes = [doc], listening = False\<rparr>)"

text \<open>The record of a response that carries one.\<close>

definition captured :: "'d outcome \<Rightarrow> 'd option" where
  "captured out = (case payload (response out) of Envelope s m d f \<Rightarrow> Some d | _ \<Rightarrow> None)"

definition firestore :: "'d outcome \<Rightarrow> FirestoreResult option" where
  "firestore out = (case payload (response out) of Envelope s m d f \<Rightarrow> Some f | _ \<Rightarrow> None)"

text \<open>The \<^verbatim>\<open>success\<close> of the outer envelope.\<close>

definition envelope_success :: "'d outcome \<Rightarrow> bool option" where
  "envelope_success out = (case payload (response out) of Envelope s m d f \<Rightarrow> Some s | _ \<Rightarrow> None)"

text \<open>The preflight answer, which every capture handler has after its headers.\<close>

definition preflight :: "'d outcome" where
  "preflight =
     \<lparr>response = \<lparr>statusCode = 200, setHeader = cors, payload = End\<rparr>,
      writes = [], listening = False\<rparr>"

section \<open>The capture records\<close>

record capture_common =
  timestamp :: string
  http_method :: string
  url :: string
  headers :: "(string \<times> string) list"
  query :: "(string \<times> string) list"
  body :: jsval
  ip :: "string option"
  userAgent :: "string option"
  contentLength :: "string option"

record simple_capture = capture_common +
  contentType_header :: "string option"
  vercelHeaders :: "(string \<times> string option) list"

record raw_capture = capture_common +
  rawBody :: "string option"
  contentType :: string
  isXML_flag :: bool

record format_capture = raw_capture +
  bodyType :: string
  isJSON_flag :: bool
  isFormData_flag :: bool

record full_capture = format_capture +
  isTextPlain_flag :: bool
  bodyExists :: bool
  rawBodyExists :: bool
  bodyDataType :: string
  rawBodyLength :: nat

record XMLMetadata =
  xmlDeclaration :: string
  rootElement :: string
  bodyLength :: nat
  hasDoctype :: bool
  encoding :: string

record xml_capture = raw_capture +
  xmlMetadata :: "XMLMetadata option"

section \<open>Format detection\<close>

definition isJSON :: "string \<Rightarrow> bool" where
  "isJSON ctype = includes_str ctype ''application/json''"

definition isXML :: "string \<Rightarrow> string \<Rightarrow> bool" where
  "isXML ctype raw =
     (includes_str ctype ''xml'' \<or>
      includes_str ctype ''text/plain'' \<and> startsWith (trim raw) ''<?xml'' \<or>
      startsWith (trim raw) ''<?xml'')"

definition isFormData :: "string \<Rightarrow> bool" where
  "isFormData ctype =
     (includes_str ctype ''application/x-www-form-urlencoded'' \<or>
      includes_str ctype ''multipart/form-data'')"

definition isTextPlain :: "string \<Rightarrow> bool" where
  "isTextPlain ctype = includes_str ctype ''text/plain''"

section \<open>The handlers\<close>

subsection \<open>The plain capture\<close>

definition capturedData_simple :: "simple_capture runtime \<Rightarrow> request \<Rightarrow> simple_capture" where
  "capturedData_simple env req =
     \<lparr>timestamp = toISOString env, http_method = req_method req, url = req_url req,
      headers = req_headers req, query = req_query req, body = req_body req,
      ip = or_else (header req ''x-forwarded-for'') (remoteAddress req),
      userAgent = header req ''user-agent'',
      contentLength = header req ''content-length'',
      contentType_header = header req ''content-type'',
      vercelHeaders =
        [(''x-vercel-id'', header req ''x-vercel-id''),
         (''x-real-ip'', header req ''x-real-ip''),
         (''x-forwarded-proto'', header req ''x-forwarded-proto''),
         (''x-forwarded-host'', header req ''x-forwarded-host'')]\<rparr>"

definition handler_simple :: "simple_capture runtime \<Rightarrow> request \<Rightarrow> simple_capture outcome" where
  "handler_simple env req =
     (if req_method req \<noteq> ''POST'' then methodNotAllowed req
      else
        let capturedData = capturedData_simple env req
        in if req_method req = ''OPTIONS'' then preflight
           else save env capturedData None ''Data saved to Firestore successfully''
                  ''Request data captured successfully'')"

subsection \<open>The raw body\<close>

text \<open>
  ``Convert body to string for raw capture'': a string is taken as it is, an object is
  pretty-printed, and every other value leaves the initial \<^verbatim>\<open>''\<close>. The result
  \<open>None\<close> is the \<^verbatim>\<open>undefined\<close> of \<^verbatim>\<open>JSON.stringify\<close>, on which the
  \<^verbatim>\<open>rawBody.trim()\<close> of the detection throws; no object of the model gives it.
\<close>

definition rawBody_of :: "'z conversions_scheme \<Rightarrow> jsval \<Rightarrow> string option" where
  "rawBody_of rt bodyData =
     (if truthy bodyData then
        (case bodyData of
           JStr s \<Rightarrow> Some s
         | _ \<Rightarrow> if typeof bodyData = ''object'' then JSON_stringify rt bodyData else Some [])
      else Some [])"

definition trim_of_undefined :: thrown where
  "trim_of_undefined =
     Error (''Cannot read properties of undefined (reading '' @ [CHR 0x27] @ ''trim''
            @ [CHR 0x27] @ '')'')"

subsection \<open>The capture with format detection\<close>

definition capturedData_format :: "format_capture runtime \<Rightarrow> request \<Rightarrow> string \<Rightarrow> format_capture" where
  "capturedData_format env req raw =
     (let bodyData = req_body req;
          ctype = contentType_of req
      in \<lparr>timestamp = toISOString env, http_method = req_method req, url = req_url req,
          headers = req_headers req, query = req_query req, body = bodyData,
          ip = or_else (header req ''x-forwarded-for'') (remoteAddress req),
          userAgent = header req ''user-agent'',
          contentLength = header req ''content-length'',
          rawBody = or_null raw,
          contentType = ctype,
          isXML_flag = isXML ctype raw,
          bodyType =
            (if isJSON ctype then ''json''
             else if isXML ctype raw then ''xml''
             else if isFormData ctype then ''form''
             else ''unknown''),
          isJSON_flag = isJSON ctype,
          isFormData_flag = isFormData ctype\<rparr>)"

definition handler_format :: "format_capture runtime \<Rightarrow> request \<Rightarrow> format_capture outcome" where
  "handler_format env req =
     (if req_method req \<noteq> ''POST'' then methodNotAllowed req
      else
        case rawBody_of env (req_body req) of
          None \<Rightarrow> internalError trim_of_undefined
        | Some raw \<Rightarrow>
            let capturedData = capturedData_format env req raw
            in if req_method req = ''OPTIONS'' then preflight
               else save env capturedData None ''Data saved to Firestore successfully''
                      ''Request data captured successfully'')"

subsection \<open>The capture with parsing\<close>

text \<open>
  The listeners this handler puts on the request stream when it has no body: the first
  collects the chunks, the second, at the end of the stream, assigns their text to the
  two variables. They are called from the event loop, so after the handler has run up to
  its \<^verbatim>\<open>await\<close>, where the record is already built from the values the variables had;
  nothing reads the variables after that.
\<close>

definition on_end :: "string list \<Rightarrow> jsval \<times> string \<Rightarrow> jsval \<times> string" where
  "on_end chunks vars =
     (if length chunks > 0 then (JStr (concat chunks), concat chunks) else vars)"

text \<open>``Try to parse body based on content type'': only a string is parsed.\<close>

definition parsedBody_of :: "'d runtime \<Rightarrow> string \<Rightarrow> jsval \<Rightarrow> jsval" where
  "parsedBody_of env ctype bodyData =
     (case bodyData of
        JStr s \<Rightarrow>
          if isJSON ctype then
            (case JSON_parse env s of Some v \<Rightarrow> v | None \<Rightarrow> bodyData)
          else if isFormData ctype then
            (case fromEntries env s of Some v \<Rightarrow> v | None \<Rightarrow> bodyData)
          else bodyData
      | _ \<Rightarrow> bodyData)"

definition capturedData_full :: "full_capture runtime \<Rightarrow> request \<Rightarrow> string \<Rightarrow> full_capture" where
  "capturedData_full env req raw =
     (let bodyData = req_body req;
          ctype = contentType_of req;
          parsedBody = parsedBody_of env ctype bodyData
      in \<lparr>timestamp = toISOString env, http_method = req_method req, url = req_url req,
          headers = req_headers req, query = req_query req, body = parsedBody,
          ip = or_else (header req ''x-forwarded-for'') (remoteAddress req),
          userAgent = header req ''user-agent'',
          contentLength = header req ''content-length'',
          rawBody = or_null raw,
          contentType = ctype,
          isXML_flag = isXML ctype raw,
          bodyType =
            (if isJSON ctype then ''json''
             else if isXML ctype raw then ''xml''
             else if isFormData ctype then ''form''
             else if isTextPlain ctype then ''text''
             else ''unknown''),
          isJSON_flag = isJSON ctype,
          isFormData_flag = isFormData ctype,
          isTextPlain_flag = isTextPlain ctype,
          bodyExists = truthy bodyData,
          rawBodyExists = (raw \<noteq> []),
          bodyDataType = typeof bodyData,
          rawBodyLength = (if raw \<noteq> [] then length raw else 0)\<rparr>)"

definition handler_full :: "full_capture runtime \<Rightarrow> request \<Rightarrow> full_capture outcome" where
  "handler_full env req =
     (if req_method req \<noteq> ''POST'' then methodNotAllowed req
      else
        case rawBody_of env (req_body req) of
          None \<Rightarrow> internalError trim_of_undefined
        | Some raw \<Rightarrow>
            let listen = (\<not> truthy (req_body req) \<and> raw = []);
                capturedData = capturedData_full env req raw
            in if req_method req = ''OPTIONS'' then preflight\<lparr>listening := listen\<rparr>
               else (save env capturedData None ''Data saved to Firestore successfully''
                       ''Request data captured successfully'')\<lparr>listening := listen\<rparr>)"

subsection \<open>The XML capture\<close>

text \<open>
  Here an object that has a \<^verbatim>\<open>toString\<close> is converted by calling it, and only an
  object without one is pretty-printed. Calling an own property, which is data, throws.
\<close>

definition rawBody_xml :: "'z conversions_scheme \<Rightarrow> jsval \<Rightarrow> thrown + string" where
  "rawBody_xml rt b =
     (if truthy b then
        (case b of
           JStr s \<Rightarrow> Inr s
         | _ \<Rightarrow>
           if typeof b = ''object'' then
             (case get_toString b of
                Method \<Rightarrow>
                  (case ToString rt b of
                     Some s \<Rightarrow> Inr s
                   | None \<Rightarrow> Inl (Error ''Cannot convert object to primitive value''))
              | Data v \<Rightarrow>
                  if truthy v then Inl (Error ''req.body.toString is not a function'')
                  else (case JSON_stringify rt b of Some s \<Rightarrow> Inr s | None \<Rightarrow> Inl trim_of_undefined)
              | Absent \<Rightarrow>
                  (case JSON_stringify rt b of Some s \<Rightarrow> Inr s | None \<Rightarrow> Inl trim_of_undefined))
           else Inr [])
      else Inr [])"

text \<open>``Extract basic XML info'', for a body detected as XML and not empty.\<close>

definition extractMetadata :: "string \<Rightarrow> XMLMetadata option" where
  "extractMetadata raw =
     (case indexOf raw ''<?xml'' of
        None \<Rightarrow> None
      | Some xmlStart \<Rightarrow>
          (case indexOf raw ''?>'' of
             None \<Rightarrow> None
           | Some xmlEnd \<Rightarrow>
               let xmlDecl = substring raw xmlStart (xmlEnd + 2);
                   rootMatch = matchTag raw
               in Some \<lparr>xmlDeclaration = xmlDecl,
                         rootElement = (case rootMatch of Some g \<Rightarrow> g | None \<Rightarrow> ''unknown''),
                         bodyLength = length raw,
                         hasDoctype = includes_str raw ''<!DOCTYPE'',
                         encoding =
                           (if includes_str xmlDecl (''encoding='' @ [CHR 0x22] @ ''UTF-8'' @ [CHR 0x22])
                            then ''UTF-8'' else ''unknown'')\<rparr>))"

definition capturedData_xml :: "xml_capture runtime \<Rightarrow> request \<Rightarrow> string \<Rightarrow> xml_capture" where
  "capturedData_xml env req raw =
     (let ctype = contentType_of req;
          xml = isXML ctype raw;
          metadata = (if xml \<and> raw \<noteq> [] then extractMetadata raw else None)
      in \<lparr>timestamp = toISOString env, http_method = req_method req, url = req_url req,
          headers = req_headers req, query = req_query req, body = req_body req,
          ip = or_else (header req ''x-forwarded-for'') (remoteAddress req),
          userAgent = header req ''user-agent'',
          contentLength = header req ''content-length'',
          rawBody = or_null raw,
          contentType = ctype,
          isXML_flag = xml,
          xmlMetadata = metadata\<rparr>)"

definition handler_xml :: "xml_capture runtime \<Rightarrow> request \<Rightarrow> xml_capture outcome" where
  "handler_xml env req =
     (if req_method req \<noteq> ''POST'' then methodNotAllowed req
      else
        case rawBody_xml env (req_body req) of
          Inl e \<Rightarrow> internalError e
        | Inr raw \<Rightarrow>
            let capturedData = capturedData_xml env req raw
            in if req_method req = ''OPTIONS'' then preflight
               else save env capturedData (Some ''xml_capture'')
                      ''XML data saved to Firestore successfully''
                      (if isXML_flag capturedData then ''XML data captured successfully''
                       else ''Request data captured successfully''))"

section \<open>The properties, in the words of the specification\<close>

text \<open>A string contains another when it is some text, the other, and some more text.\<close>

definition contains :: "string \<Rightarrow> string \<Rightarrow> bool" where
  "contains s p = (\<exists>u v. s = u @ p @ v)"

text \<open>
  The priority order of the classification: JSON, then XML, then form, then text, then
  unknown.
\<close>

definition spec_bodyType :: "string \<Rightarrow> string \<Rightarrow> string" where
  "spec_bodyType ctype raw =
     (if contains ctype ''application/json'' then ''json''
      else if contains ctype ''xml''
              \<or> contains ctype ''text/plain'' \<and> startsWith (trim raw) ''<?xml''
              \<or> startsWith (trim raw) ''<?xml'' then ''xml''
      else if contains ctype ''application/x-www-form-urlencoded''
              \<or> contains ctype ''multipart/form-data'' then ''form''
      else if contains ctype ''text/plain'' then ''text''
      else ''unknown'')"

text \<open>The detection of XML without its middle clause.\<close>

definition isXML_two_clause :: "string \<Rightarrow> string \<Rightarrow> bool" where
  "isXML_two_clause ctype raw =
     (includes_str ctype ''xml'' \<or> startsWith (trim raw) ''<?xml'')"

text \<open>
  The declaration as the specification describes it: from the first \<open><?xml\<close> to the
  first \<open>?>\<close> at or after it, both included.
\<close>

definition spec_declaration :: "string \<Rightarrow> string option" where
  "spec_declaration raw =
     (case indexOf raw ''<?xml'' of
        None \<Rightarrow> None
      | Some i \<Rightarrow>
          (case indexOf (drop i raw) ''?>'' of
             None \<Rightarrow> None
           | Some k \<Rightarrow> Some (take (k + 2) (drop i raw))))"

text \<open>
  A tag name begins at position \<open>i\<close> when a \<open><\<close> stands there and a letter follows;
  the name is that letter and the letters and digits after it. The first tag is the one
  with no tag before it.
\<close>

definition tag_at :: "string \<Rightarrow> nat \<Rightarrow> bool" where
  "tag_at s i = (Suc i < length s \<and> s ! i = CHR ''<'' \<and> isLetter (s ! Suc i))"

definition first_tag :: "string \<Rightarrow> nat \<Rightarrow> bool" where
  "first_tag s i = (tag_at s i \<and> (\<forall>j<i. \<not> tag_at s j))"

definition tag_name :: "string \<Rightarrow> nat \<Rightarrow> string" where
  "tag_name s i = takeWhile isLetterOrDigit (drop (Suc i) s)"



text \<open>The answer to a method that is not allowed: status 405, no header set, no write.\<close>

definition rejected :: "'d outcome \<Rightarrow> string \<Rightarrow> bool" where
  "rejected out m =
     (response out =
        \<lparr>statusCode = 405, setHeader = [],
         payload = MethodError ''Method not allowed. Only POST requests are accepted.'' ''POST'' m\<rparr>
      \<and> writes out = [])"

text \<open>
  The answer to a capture whose write threw: status 200, an envelope with
  \<^verbatim>\<open>success: true\<close> around the record, and inside it the storage outcome with
  \<^verbatim>\<open>success: false\<close>, the error string and the message of what was thrown.
\<close>

definition reports_failure :: "'d outcome \<Rightarrow> 'd \<Rightarrow> thrown \<Rightarrow> bool" where
  "reports_failure out d e =
     (statusCode (response out) = 200 \<and>
      envelope_success out = Some True \<and>
      captured out = Some d \<and>
      firestore out =
        Some \<lparr>success = False, documentId = None,
              message = (case e of Error m \<Rightarrow> m | NonError \<Rightarrow> ''Unknown Firestore error''),
              error = Some ''Failed to save to Firestore''\<rparr>)"

section \<open>Example inputs\<close>

text \<open>
  A runtime for the examples, given the behaviour of the write. Its JSON parser knows
  the literals \<open>null\<close>, \<open>true\<close>, \<open>false\<close> and \<open>0\<close> and rejects \<open>{oops\<close>, which is
  all the examples parse; it prints numbers with all their digits and decodes a
  \<^verbatim>\<open>Buffer\<close> byte by byte, which is right for the small numbers and the ASCII text
  of the examples.
\<close>

definition example_parse :: "string \<Rightarrow> jsval option" where
  "example_parse s =
     (if s = ''null'' then Some JNull
      else if s = ''true'' then Some (JBool True)
      else if s = ''false'' then Some (JBool False)
      else if s = ''0'' then Some (JNum 0)
      else None)"

definition example_runtime :: "('d document \<Rightarrow> thrown + string) \<Rightarrow> 'd runtime" where
  "example_runtime store =
     \<lparr>Number_toString = showInt, Buffer_toString = (\<lambda>bytes. bytes),
      toISOString = ''2024-05-01T12:00:00.000Z'', new_Date = 1714564800000,
      Date_now = 1714564800000, random36 = ''0.4fzyo82mvyr'',
      JSON_parse = example_parse, fromEntries = (\<lambda>s. Some (JObj True [])),
      add = store\<rparr>"

definition store_up :: "'d document \<Rightarrow> thrown + string" where
  "store_up doc = Inr ''doc-1''"

definition store_down :: "'d document \<Rightarrow> thrown + string" where
  "store_down doc = Inl (Error ''UNAVAILABLE'')"

definition example_request :: "string \<Rightarrow> string \<Rightarrow> jsval \<Rightarrow> request" where
  "example_request m ctype b =
     \<lparr>req_method = m, req_url = ''/api/capture'',
      req_headers = [(''content-type'', ctype), (''user-agent'', ''curl/8.5.0'')],
      req_query = [], req_body = b, remoteAddress = Some ''203.0.113.7'', unread = []\<rparr>"

section \<open>Facts about the string operations\<close>

lemma startsWith_append: "startsWith (p @ v) p"
  by (simp add: startsWith_def)

lemma startsWith_decompose: "startsWith s p \<Longrightarrow> s = p @ drop (length p) s"
  by (metis append_take_drop_id startsWith_def)

text \<open>\<^const>\<open>indexOf\<close> finds an occurrence whenever there is one, and the earliest.\<close>

lemma indexOf_found: "startsWith (drop i s) p \<Longrightarrow> \<exists>j\<le>i. indexOf s p = Some j"
proof (induction s arbitrary: i)
  case Nil
  then show ?case by (simp add: startsWith_def)
next
  case (Cons c cs)
  show ?case
  proof (cases "startsWith (c # cs) p")
    case True
    then show ?thesis by simp
  next
    case False
    with Cons.prems obtain k where k: "i = Suc k" by (cases i) auto
    with Cons.prems have "startsWith (drop k cs) p" by simp
    from Cons.IH [OF this] obtain j where "j \<le> k" "indexOf cs p = Some j" by blast
    with False k show ?thesis by auto
  qed
qed

lemma indexOf_sound: "indexOf s p = Some i \<Longrightarrow> startsWith (drop i s) p \<and> i \<le> length s"
proof (induction s arbitrary: i)
  case Nil
  then show ?case by (auto simp: startsWith_def split: if_splits)
next
  case (Cons c cs)
  then show ?case by (auto split: if_splits)
qed

lemma indexOf_least: "indexOf s p = Some i \<Longrightarrow> j < i \<Longrightarrow> \<not> startsWith (drop j s) p"
  using indexOf_found [of j s p] by auto

lemma includes_str_iff: "includes_str s p \<longleftrightarrow> contains s p"
proof
  assume "includes_str s p"
  then obtain i where i: "indexOf s p = Some i" by (auto simp: includes_str_def)
  from indexOf_sound [OF i] have "drop i s = p @ drop (length p) (drop i s)"
    using startsWith_decompose by blast
  then have "s = take i s @ p @ drop (length p) (drop i s)"
    by (metis append_take_drop_id)
  then show "contains s p" unfolding contains_def by blast
next
  assume "contains s p"
  then obtain u v where "s = u @ p @ v" unfolding contains_def by blast
  then have "startsWith (drop (length u) s) p" by (simp add: startsWith_append)
  from indexOf_found [OF this] show "includes_str s p" by (auto simp: includes_str_def)
qed

text \<open>The matcher returns the name of the first tag.\<close>

lemma matchTag_first: "first_tag s i \<Longrightarrow> matchTag s = Some (tag_name s i)"
proof (induction s arbitrary: i rule: matchTag.induct)
  case 1
  then show ?case by (simp add: first_tag_def tag_at_def)
next
  case (2 c)
  then show ?case by (simp add: first_tag_def tag_at_def)
next
  case (3 c d cs)
  show ?case
  proof (cases "c = CHR ''<'' \<and> isLetter d")
    case True
    then have "tag_at (c # d # cs) 0" by (simp add: tag_at_def)
    with "3.prems" have "i = 0" unfolding first_tag_def by (cases i) auto
    with True show ?thesis by (simp add: tag_name_def isLetterOrDigit_def)
  next
    case False
    with "3.prems" obtain k where k: "i = Suc k"
      unfolding first_tag_def tag_at_def by (cases i) auto
    have "first_tag (d # cs) k"
      unfolding first_tag_def
    proof (intro conjI allI impI)
      from "3.prems" k show "tag_at (d # cs) k" by (simp add: first_tag_def tag_at_def)
    next
      fix j assume "j < k"
      with "3.prems" k have "\<not> tag_at (c # d # cs) (Suc j)" by (simp add: first_tag_def)
      then show "\<not> tag_at (d # cs) j" by (simp add: tag_at_def)
    qed
    from "3.IH" [OF False this] False k show ?thesis by (auto simp: tag_name_def)
  qed
qed

lemma matchTag_none: "matchTag s = None \<Longrightarrow> \<not> tag_at s i"
proof (induction s arbitrary: i rule: matchTag.induct)
  case 1
  then show ?case by (simp add: tag_at_def)
next
  case (2 c)
  then show ?case by (simp add: tag_at_def)
next
  case (3 c d cs)
  then show ?case by (cases i) (auto simp: tag_at_def split: if_splits)
qed

section \<open>Facts about the raw body\<close>

lemma block_nonempty: "block a b ind items \<noteq> []"
  by (simp add: block_def)

text \<open>\<^verbatim>\<open>JSON.stringify\<close> gives every object a text, and not the empty one.\<close>

lemma stringify_object:
  "truthy v \<Longrightarrow> typeof v = ''object'' \<Longrightarrow> \<exists>s. JSON_stringify rt v = Some s \<and> s \<noteq> []"
  by (cases v) (simp_all add: JSON_stringify_def block_nonempty)

lemma rawBody_of_defined: "\<exists>raw. rawBody_of rt v = Some raw"
  using stringify_object [of v rt] by (cases v) (auto simp: rawBody_of_def)


lemma rawBody_of_string: "rawBody_of rt (JStr s) = Some s"
  by (simp add: rawBody_of_def)


text \<open>What is unread on the stream has no part in what a handler does.\<close>

lemma unread_not_read:
  "handler_full env (req\<lparr>unread := chunks\<rparr>) = handler_full env req"
  by (cases "rawBody_of env (req_body req)")
     (simp_all add: handler_full_def capturedData_full_def contentType_of_def header_def
        methodNotAllowed_def Let_def)

lemma or_null_back: "(case or_null raw of Some r \<Rightarrow> r | None \<Rightarrow> []) = raw"
  by (simp add: or_null_def)

section \<open>Facts about the write and the response\<close>

lemma save_fields:
  "statusCode (response (save env d c s m)) = 200"
  "setHeader (response (save env d c s m)) = cors"
  "envelope_success (save env d c s m) = Some True"
  "captured (save env d c s m) = Some d"
  "firestore (save env d c s m) = Some (firestoreResult_of env (document_of env d c) s)"
  "writes (save env d c s m) = [document_of env d c]"
  by (simp_all add: save_def Let_def captured_def firestore_def envelope_success_def)

lemma listening_fields:
  "response (out\<lparr>listening := l\<rparr>) = response out"
  "writes (out\<lparr>listening := l\<rparr>) = writes out"
  "captured (out\<lparr>listening := l\<rparr>) = captured out"
  "firestore (out\<lparr>listening := l\<rparr>) = firestore out"
  "envelope_success (out\<lparr>listening := l\<rparr>) = envelope_success out"
  by (simp_all add: captured_def firestore_def envelope_success_def)

text \<open>A write that throws is reported inside an envelope that says success.\<close>

lemma save_failure:
  assumes "add env (document_of env d c) = Inl e"
  shows "reports_failure (save env d c s m) d e"
proof -
  from assms have "firestoreResult_of env (document_of env d c) s =
     \<lparr>success = False, documentId = None,
      message = (case e of Error m \<Rightarrow> m | NonError \<Rightarrow> ''Unknown Firestore error''),
      error = Some ''Failed to save to Firestore''\<rparr>"
    by (simp add: firestoreResult_of_def)
  then show ?thesis by (simp add: reports_failure_def save_fields)
qed

lemma reports_failure_listening:
  "reports_failure (out\<lparr>listening := l\<rparr>) d e = reports_failure out d e"
  by (simp add: reports_failure_def listening_fields)

text \<open>What each handler does with a \<open>POST\<close>, once the raw body is there.\<close>

lemma handler_simple_post:
  "req_method req = ''POST'' \<Longrightarrow>
   handler_simple env req =
     save env (capturedData_simple env req) None ''Data saved to Firestore successfully''
       ''Request data captured successfully''"
  by (simp add: handler_simple_def)

lemma handler_format_post:
  "req_method req = ''POST'' \<Longrightarrow> rawBody_of env (req_body req) = Some raw \<Longrightarrow>
   handler_format env req =
     save env (capturedData_format env req raw) None ''Data saved to Firestore successfully''
       ''Request data captured successfully''"
  by (simp add: handler_format_def)

lemma handler_full_post:
  "req_method req = ''POST'' \<Longrightarrow> rawBody_of env (req_body req) = Some raw \<Longrightarrow>
   handler_full env req =
     (save env (capturedData_full env req raw) None ''Data saved to Firestore successfully''
        ''Request data captured successfully'')\<lparr>listening := (\<not> truthy (req_body req) \<and> raw = [])\<rparr>"
  by (simp add: handler_full_def)

lemma handler_xml_post:
  "req_method req = ''POST'' \<Longrightarrow> rawBody_xml env (req_body req) = Inr raw \<Longrightarrow>
   handler_xml env req =
     save env (capturedData_xml env req raw) (Some ''xml_capture'')
       ''XML data saved to Firestore successfully''
       (if isXML_flag (capturedData_xml env req raw) then ''XML data captured successfully''
        else ''Request data captured successfully'')"
  by (simp add: handler_xml_def)

lemma simple_failure:
  assumes "req_method req = ''POST''"
    and "add env (document_of env (capturedData_simple env req) None) = Inl e"
  shows "reports_failure (handler_simple env req) (capturedData_simple env req) e
       \<and> writes (handler_simple env req) = [document_of env (capturedData_simple env req) None]"
  by (simp add: handler_simple_post [OF assms(1)] save_failure [OF assms(2)] save_fields)

lemma format_failure:
  assumes "req_method req = ''POST''"
    and "rawBody_of env (req_body req) = Some raw"
    and "add env (document_of env (capturedData_format env req raw) None) = Inl e"
  shows "reports_failure (handler_format env req) (capturedData_format env req raw) e
       \<and> writes (handler_format env req) = [document_of env (capturedData_format env req raw) None]"
  by (simp add: handler_format_post [OF assms(1,2)] save_failure [OF assms(3)] save_fields)

lemma full_failure:
  assumes "req_method req = ''POST''"
    and "rawBody_of env (req_body req) = Some raw"
    and "add env (document_of env (capturedData_full env req raw) None) = Inl e"
  shows "reports_failure (handler_full env req) (capturedData_full env req raw) e
       \<and> writes (handler_full env req) = [document_of env (capturedData_full env req raw) None]"
  by (simp add: handler_full_post [OF assms(1,2)] save_failure [OF assms(3)] save_fields
        reports_failure_listening listening_fields)

lemma xml_failure:
  assumes "req_method req = ''POST''"
    and "rawBody_xml env (req_body req) = Inr raw"
    and "add env (document_of env (capturedData_xml env req raw) (Some ''xml_capture'')) = Inl e"
  shows "reports_failure (handler_xml env req) (capturedData_xml env req raw) e
       \<and> writes (handler_xml env req) =
           [document_of env (capturedData_xml env req raw) (Some ''xml_capture'')]"
  by (simp add: handler_xml_post [OF assms(1,2)] save_failure [OF assms(3)] save_fields)

text \<open>The definitions that evaluating a handler on an example unfolds.\<close>

lemmas eval_defs =
  example_request_def example_runtime_def store_up_def store_down_def example_parse_def
  handler_full_def handler_xml_def handler_format_def handler_simple_def
  capturedData_full_def capturedData_xml_def capturedData_format_def capturedData_simple_def
  parsedBody_of_def rawBody_of_def rawBody_xml_def extractMetadata_def
  save_def document_of_def firestoreResult_of_def
  captured_def firestore_def envelope_success_def
  contentType_of_def header_def or_else_def or_null_def
  isJSON_def isXML_def isFormData_def isTextPlain_def
  includes_str_def startsWith_def trim_def isWhiteSpace_def substring_def
  isLetter_def isLetterOrDigit_def Let_def

section \<open>The claims\<close>

text \<open>
  C10. For every content type and every raw body, the detection of XML with its three
  clauses (the content type contains \<open>xml\<close>, or it contains \<open>text/plain\<close> and the
  trimmed body starts with \<open><?xml\<close>, or the trimmed body starts with \<open><?xml\<close>) says the
  same as the first and the last clause alone: the clause about \<open>text/plain\<close> adds
  nothing.
\<close>

theorem isXML_middle_clause_redundant: "isXML ctype raw = isXML_two_clause ctype raw"
  by (auto simp: isXML_def isXML_two_clause_def)

text \<open>
  C1. For every \<open>OPTIONS\<close> request to a capture endpoint, the handler sets the
  permissive cross-origin headers and returns 200 with an empty body, without invoking
  the write. The handlers do not: their first test answers every method but \<open>POST\<close>
  with 405, before any header is set, so the preflight branch further down is never
  reached. What they do is stated here: status 405 with the method error, no header,
  no write.
\<close>

theorem options_rejected:
  assumes "req_method req = ''OPTIONS''"
  shows "rejected (handler_simple e1 req) ''OPTIONS'' \<and> rejected (handler_format e2 req) ''OPTIONS''
       \<and> rejected (handler_full e3 req) ''OPTIONS'' \<and> rejected (handler_xml e4 req) ''OPTIONS''"
  using assms
  by (simp add: rejected_def handler_simple_def handler_format_def handler_full_def handler_xml_def
        methodNotAllowed_def)

theorem options_rejected_witness:
  "req_method (example_request ''OPTIONS'' ''text/plain'' JUndefined) = ''OPTIONS''
   \<and> statusCode (response (handler_full (example_runtime store_up)
         (example_request ''OPTIONS'' ''text/plain'' JUndefined))) = 405
   \<and> setHeader (response (handler_full (example_runtime store_up)
         (example_request ''OPTIONS'' ''text/plain'' JUndefined))) = []
   \<and> writes (handler_full (example_runtime store_up)
         (example_request ''OPTIONS'' ''text/plain'' JUndefined)) = []
   \<and> rejected (handler_format (example_runtime store_up)
         (example_request ''OPTIONS'' ''text/plain'' JUndefined)) ''OPTIONS''"
proof -
  have m: "req_method (example_request ''OPTIONS'' ''text/plain'' JUndefined) = ''OPTIONS''"
    by (simp add: example_request_def)
  from options_rejected [OF m] m show ?thesis
    by (simp add: rejected_def)
qed

text \<open>
  C2. For every \<open>POST\<close> request to a capture endpoint in which the write throws, the
  handler still returns 200 with an envelope whose \<open>success\<close> is true, and the storage
  outcome inside reports \<open>success: false\<close> with an error string and a message. The
  write is the one of the request's document, and what the store does with it is the
  hypothesis; each handler makes that write, once. In the handlers that convert the
  body first, \<open>raw\<close> is the raw body they got.
\<close>

theorem write_failure_acknowledged:
  "(req_method req = ''POST''
      \<and> add e1 (document_of e1 (capturedData_simple e1 req) None) = Inl t1
      \<longrightarrow> reports_failure (handler_simple e1 req) (capturedData_simple e1 req) t1
        \<and> writes (handler_simple e1 req) = [document_of e1 (capturedData_simple e1 req) None])
   \<and> (req_method req = ''POST'' \<and> rawBody_of e2 (req_body req) = Some raw2
      \<and> add e2 (document_of e2 (capturedData_format e2 req raw2) None) = Inl t2
      \<longrightarrow> reports_failure (handler_format e2 req) (capturedData_format e2 req raw2) t2
        \<and> writes (handler_format e2 req) = [document_of e2 (capturedData_format e2 req raw2) None])
   \<and> (req_method req = ''POST'' \<and> rawBody_of e3 (req_body req) = Some raw3
      \<and> add e3 (document_of e3 (capturedData_full e3 req raw3) None) = Inl t3
      \<longrightarrow> reports_failure (handler_full e3 req) (capturedData_full e3 req raw3) t3
        \<and> writes (handler_full e3 req) = [document_of e3 (capturedData_full e3 req raw3) None])
   \<and> (req_method req = ''POST'' \<and> rawBody_xml e4 (req_body req) = Inr raw4
      \<and> add e4 (document_of e4 (capturedData_xml e4 req raw4) (Some ''xml_capture'')) = Inl t4
      \<longrightarrow> reports_failure (handler_xml e4 req) (capturedData_xml e4 req raw4) t4
        \<and> writes (handler_xml e4 req) =
            [document_of e4 (capturedData_xml e4 req raw4) (Some ''xml_capture'')])"
  using simple_failure format_failure full_failure xml_failure by blast

theorem write_failure_acknowledged_witness:
  "req_method (example_request ''POST'' ''application/xml'' (JStr ''<?xml version=1?><r/>'')) = ''POST''
   \<and> statusCode (response (handler_simple (example_runtime store_down)
         (example_request ''POST'' ''application/xml'' (JStr ''<?xml version=1?><r/>'')))) = 200
   \<and> envelope_success (handler_simple (example_runtime store_down)
         (example_request ''POST'' ''application/xml'' (JStr ''<?xml version=1?><r/>''))) = Some True
   \<and> map_option success (firestore (handler_simple (example_runtime store_down)
         (example_request ''POST'' ''application/xml'' (JStr ''<?xml version=1?><r/>'')))) = Some False
   \<and> statusCode (response (handler_format (example_runtime store_down)
         (example_request ''POST'' ''application/xml'' (JStr ''<?xml version=1?><r/>'')))) = 200
   \<and> envelope_success (handler_format (example_runtime store_down)
         (example_request ''POST'' ''application/xml'' (JStr ''<?xml version=1?><r/>''))) = Some True
   \<and> map_option success (firestore (handler_format (example_runtime store_down)
         (example_request ''POST'' ''application/xml'' (JStr ''<?xml version=1?><r/>'')))) = Some False
   \<and> statusCode (response (handler_full (example_runtime store_down)
         (example_request ''POST'' ''application/xml'' (JStr ''<?xml version=1?><r/>'')))) = 200
   \<and> envelope_success (handler_full (example_runtime store_down)
         (example_request ''POST'' ''application/xml'' (JStr ''<?xml version=1?><r/>''))) = Some True
   \<and> map_option success (firestore (handler_full (example_runtime store_down)
         (example_request ''POST'' ''application/xml'' (JStr ''<?xml version=1?><r/>'')))) = Some False
   \<and> map_option message (firestore (handler_full (example_runtime store_down)
         (example_request ''POST'' ''application/xml'' (JStr ''<?xml version=1?><r/>'')))) = Some ''UNAVAILABLE''
   \<and> statusCode (response (handler_xml (example_runtime store_down)
         (example_request ''POST'' ''application/xml'' (JStr ''<?xml version=1?><r/>'')))) = 200
   \<and> envelope_success (handler_xml (example_runtime store_down)
         (example_request ''POST'' ''application/xml'' (JStr ''<?xml version=1?><r/>''))) = Some True
   \<and> map_option success (firestore (handler_xml (example_runtime store_down)
         (example_request ''POST'' ''application/xml'' (JStr ''<?xml version=1?><r/>'')))) = Some False
   \<and> map_option error (firestore (handler_xml (example_runtime store_down)
         (example_request ''POST'' ''application/xml'' (JStr ''<?xml version=1?><r/>'')))) =
       Some (Some ''Failed to save to Firestore'')"
proof -
  let ?b = "''<?xml version=1?><r/>''"
  let ?req = "example_request ''POST'' ''application/xml'' (JStr ?b)"
  let ?e1 = "example_runtime store_down :: simple_capture runtime"
  let ?e2 = "example_runtime store_down :: format_capture runtime"
  let ?e3 = "example_runtime store_down :: full_capture runtime"
  let ?e4 = "example_runtime store_down :: xml_capture runtime"
  have m: "req_method ?req = ''POST''"
    by (simp add: example_request_def)
  have r2: "rawBody_of ?e2 (req_body ?req) = Some ?b"
    and r3: "rawBody_of ?e3 (req_body ?req) = Some ?b"
    by (simp_all add: example_request_def rawBody_of_def)
  have r4: "rawBody_xml ?e4 (req_body ?req) = Inr ?b"
    by (simp add: example_request_def rawBody_xml_def)
  have s1: "add ?e1 (document_of ?e1 (capturedData_simple ?e1 ?req) None) = Inl (Error ''UNAVAILABLE'')"
    and s2: "add ?e2 (document_of ?e2 (capturedData_format ?e2 ?req ?b) None) = Inl (Error ''UNAVAILABLE'')"
    and s3: "add ?e3 (document_of ?e3 (capturedData_full ?e3 ?req ?b) None) = Inl (Error ''UNAVAILABLE'')"
    and s4: "add ?e4 (document_of ?e4 (capturedData_xml ?e4 ?req ?b) (Some ''xml_capture'')) =
               Inl (Error ''UNAVAILABLE'')"
    by (simp_all add: example_runtime_def store_down_def)
  note all = write_failure_acknowledged
    [where req = ?req and ?e1.0 = ?e1 and ?e2.0 = ?e2 and ?e3.0 = ?e3 and ?e4.0 = ?e4
       and ?raw2.0 = ?b and ?raw3.0 = ?b and ?raw4.0 = ?b
       and ?t1.0 = "Error ''UNAVAILABLE''" and ?t2.0 = "Error ''UNAVAILABLE''"
       and ?t3.0 = "Error ''UNAVAILABLE''" and ?t4.0 = "Error ''UNAVAILABLE''"]
  from all m s1 have f1: "reports_failure (handler_simple ?e1 ?req) (capturedData_simple ?e1 ?req)
      (Error ''UNAVAILABLE'')" by blast
  from all m r2 s2 have f2: "reports_failure (handler_format ?e2 ?req) (capturedData_format ?e2 ?req ?b)
      (Error ''UNAVAILABLE'')" by blast
  from all m r3 s3 have f3: "reports_failure (handler_full ?e3 ?req) (capturedData_full ?e3 ?req ?b)
      (Error ''UNAVAILABLE'')" by blast
  from all m r4 s4 have f4: "reports_failure (handler_xml ?e4 ?req) (capturedData_xml ?e4 ?req ?b)
      (Error ''UNAVAILABLE'')" by blast
  from m f1 f2 f3 f4 show ?thesis
    by (simp add: reports_failure_def)
qed

lemma spec_bodyType_code:
  "spec_bodyType ctype raw =
     (if isJSON ctype then ''json''
      else if isXML ctype raw then ''xml''
      else if isFormData ctype then ''form''
      else if isTextPlain ctype then ''text''
      else ''unknown'')"
  by (simp add: spec_bodyType_def isJSON_def isXML_def isFormData_def isTextPlain_def includes_str_iff)

lemma bodyType_with_text:
  assumes "req_method req = ''POST''"
  shows "\<exists>d. captured (handler_full env req) = Some d
           \<and> contentType d = contentType_of req
           \<and> bodyType d = spec_bodyType (contentType d) (case rawBody d of Some r \<Rightarrow> r | None \<Rightarrow> [])"
proof -
  obtain raw where raw: "rawBody_of env (req_body req) = Some raw"
    using rawBody_of_defined by blast
  let ?d = "capturedData_full env req raw"
  have "captured (handler_full env req) = Some ?d"
    by (simp add: handler_full_post [OF assms raw] listening_fields save_fields)
  moreover have "contentType ?d = contentType_of req"
    by (simp add: capturedData_full_def Let_def)
  moreover have "(case rawBody ?d of Some r \<Rightarrow> r | None \<Rightarrow> []) = raw"
    by (simp add: capturedData_full_def Let_def or_null_back)
  moreover have "bodyType ?d = spec_bodyType (contentType_of req) raw"
    by (simp add: capturedData_full_def Let_def spec_bodyType_code)
  ultimately show ?thesis by simp
qed

lemma bodyType_without_text:
  assumes "req_method req = ''POST''"
  shows "\<exists>d. captured (handler_format env req) = Some d
           \<and> contentType d = contentType_of req
           \<and> bodyType d =
               (if spec_bodyType (contentType d) (case rawBody d of Some r \<Rightarrow> r | None \<Rightarrow> []) = ''text''
                then ''unknown''
                else spec_bodyType (contentType d) (case rawBody d of Some r \<Rightarrow> r | None \<Rightarrow> []))"
proof -
  obtain raw where raw: "rawBody_of env (req_body req) = Some raw"
    using rawBody_of_defined by blast
  let ?d = "capturedData_format env req raw"
  from assms raw have "captured (handler_format env req) = Some ?d"
    by (simp add: handler_format_def save_fields)
  moreover have "(case rawBody ?d of Some r \<Rightarrow> r | None \<Rightarrow> []) = raw"
    by (simp add: capturedData_format_def Let_def or_null_back)
  moreover have "contentType ?d = contentType_of req"
    by (simp add: capturedData_format_def Let_def)
  moreover have "bodyType ?d =
      (if spec_bodyType (contentType_of req) raw = ''text'' then ''unknown''
       else spec_bodyType (contentType_of req) raw)"
    by (simp add: capturedData_format_def Let_def spec_bodyType_code)
  ultimately show ?thesis by simp
qed

text \<open>
  C3. For every request, the capture handler computes \<open>bodyType\<close> by the fixed
  priority order: \<open>json\<close> if the content type contains \<open>application/json\<close>; else
  \<open>xml\<close> if the content type contains \<open>xml\<close>, or it contains \<open>text/plain\<close> and the
  trimmed raw body starts with \<open><?xml\<close>, or the trimmed raw body starts with
  \<open><?xml\<close>; else \<open>form\<close> if the content type contains
  \<open>application/x-www-form-urlencoded\<close> or \<open>multipart/form-data\<close>; else \<open>text\<close> if
  it contains \<open>text/plain\<close>; else \<open>unknown\<close>. One of the two handlers that compute a
  \<open>bodyType\<close> has no class \<open>text\<close>: for a plain text body it says \<open>unknown\<close>.
\<close>

theorem plain_text_unknown_counterexample:
  "spec_bodyType ''text/plain'' ''hello'' = ''text''
   \<and> map_option contentType (captured (handler_format (example_runtime store_up)
         (example_request ''POST'' ''text/plain'' (JStr ''hello'')))) = Some ''text/plain''
   \<and> map_option rawBody (captured (handler_format (example_runtime store_up)
         (example_request ''POST'' ''text/plain'' (JStr ''hello'')))) = Some (Some ''hello'')
   \<and> map_option bodyType (captured (handler_format (example_runtime store_up)
         (example_request ''POST'' ''text/plain'' (JStr ''hello'')))) = Some ''unknown''"
proof -
  have "spec_bodyType ''text/plain'' ''hello'' = ''text''"
    by (simp add: spec_bodyType_code isJSON_def isXML_def isFormData_def isTextPlain_def
          includes_str_def startsWith_def trim_def isWhiteSpace_def)
  then show ?thesis
    by (simp add: eval_defs)
qed

text \<open>
  C3, amended. For every captured request, the handler that parses the body computes
  \<open>bodyType\<close> by the priority order above, from the content type (the header, or the
  empty string without one) and the raw body (empty when the record has none). The
  handler without parsing follows the same order without the class \<open>text\<close>: where the
  order gives \<open>text\<close> it gives \<open>unknown\<close>, and the same value everywhere else.
\<close>

theorem bodyType_priority:
  assumes "req_method req = ''POST''"
  shows "(\<exists>d. captured (handler_full env req) = Some d
            \<and> contentType d = contentType_of req
            \<and> bodyType d =
                spec_bodyType (contentType d) (case rawBody d of Some r \<Rightarrow> r | None \<Rightarrow> []))
       \<and> (\<exists>d. captured (handler_format env' req) = Some d
            \<and> contentType d = contentType_of req
            \<and> bodyType d =
                (if spec_bodyType (contentType d) (case rawBody d of Some r \<Rightarrow> r | None \<Rightarrow> []) = ''text''
                 then ''unknown''
                 else spec_bodyType (contentType d) (case rawBody d of Some r \<Rightarrow> r | None \<Rightarrow> [])))"
  using bodyType_with_text [OF assms] bodyType_without_text [OF assms] by blast

theorem bodyType_priority_witness:
  "req_method (example_request ''POST'' ''text/plain'' (JStr ''  <?xml version=1?><r/>'')) = ''POST''
   \<and> map_option bodyType (captured (handler_full (example_runtime store_up)
         (example_request ''POST'' ''text/plain'' (JStr ''  <?xml version=1?><r/>'')))) = Some ''xml''
   \<and> spec_bodyType ''text/plain'' ''  <?xml version=1?><r/>'' = ''xml''
   \<and> map_option bodyType (captured (handler_full (example_runtime store_up)
         (example_request ''POST'' ''text/plain; charset=utf-8'' (JStr ''hello'')))) = Some ''text''
   \<and> spec_bodyType ''text/plain; charset=utf-8'' ''hello'' = ''text''"
proof -
  let ?r1 = "example_request ''POST'' ''text/plain'' (JStr ''  <?xml version=1?><r/>'')"
  let ?r2 = "example_request ''POST'' ''text/plain; charset=utf-8'' (JStr ''hello'')"
  let ?env = "example_runtime store_up :: full_capture runtime"
  let ?env' = "example_runtime store_up :: format_capture runtime"
  have m: "req_method ?r1 = ''POST''" "req_method ?r2 = ''POST''"
    by (simp_all add: example_request_def)
  have c: "contentType_of ?r1 = ''text/plain''" "contentType_of ?r2 = ''text/plain; charset=utf-8''"
    by (simp_all add: example_request_def contentType_of_def header_def or_else_def)
  have b1: "map_option bodyType (captured (handler_full ?env ?r1)) = Some ''xml''"
    by (simp add: eval_defs)
  have b2: "map_option bodyType (captured (handler_full ?env ?r2)) = Some ''text''"
    by (simp add: eval_defs)
  have r1: "map_option rawBody (captured (handler_full ?env ?r1)) = Some (Some ''  <?xml version=1?><r/>'')"
    by (simp add: eval_defs)
  have r2: "map_option rawBody (captured (handler_full ?env ?r2)) = Some (Some ''hello'')"
    by (simp add: eval_defs)
  from bodyType_priority [OF m(1), of ?env ?env'] c(1) b1 r1
  have s1: "spec_bodyType ''text/plain'' ''  <?xml version=1?><r/>'' = ''xml''"
    by auto
  from bodyType_priority [OF m(2), of ?env ?env'] c(2) b2 r2
  have s2: "spec_bodyType ''text/plain; charset=utf-8'' ''hello'' = ''text''"
    by auto
  from m b1 b2 s1 s2 show ?thesis by simp
qed

text \<open>
  C4. For every request whose trimmed raw body starts with \<open><?xml\<close>, the record's
  \<open>bodyType\<close> is \<open>xml\<close>, whatever the content type. It is not when the content type
  contains \<open>application/json\<close>: JSON is tested first.
\<close>

theorem xml_body_with_json_type_counterexample:
  "startsWith (trim ''<?xml version=1?><a/>'') ''<?xml''
   \<and> map_option rawBody (captured (handler_full (example_runtime store_up)
         (example_request ''POST'' ''application/json'' (JStr ''<?xml version=1?><a/>'')))) =
       Some (Some ''<?xml version=1?><a/>'')
   \<and> map_option bodyType (captured (handler_full (example_runtime store_up)
         (example_request ''POST'' ''application/json'' (JStr ''<?xml version=1?><a/>'')))) =
       Some ''json''"
  by (simp add: eval_defs)

text \<open>
  C4, amended. For every captured request whose trimmed raw body starts with \<open><?xml\<close>,
  the record's XML flag is set whatever the content type, and its \<open>bodyType\<close> is
  \<open>xml\<close> unless the content type contains \<open>application/json\<close>, in which case it is
  \<open>json\<close>.
\<close>

theorem xml_body_unless_json:
  assumes "req_method req = ''POST''"
    and "rawBody_of env (req_body req) = Some raw"
    and "startsWith (trim raw) ''<?xml''"
  shows "\<exists>d. captured (handler_full env req) = Some d
           \<and> contentType d = contentType_of req
           \<and> rawBody d = Some raw
           \<and> isXML_flag d
           \<and> bodyType d = (if contains (contentType d) ''application/json'' then ''json'' else ''xml'')"
proof -
  let ?d = "capturedData_full env req raw"
  from assms(3) have ne: "raw \<noteq> []" by (auto simp: startsWith_def trim_def)
  have "captured (handler_full env req) = Some ?d"
    by (simp add: handler_full_post [OF assms(1,2)] listening_fields save_fields)
  moreover have "contentType ?d = contentType_of req"
    by (simp add: capturedData_full_def Let_def)
  moreover from ne have "rawBody ?d = Some raw"
    by (simp add: capturedData_full_def Let_def or_null_def)
  moreover from assms(3) have "isXML_flag ?d"
    by (simp add: capturedData_full_def Let_def isXML_def)
  moreover from assms(3) have
    "bodyType ?d = (if contains (contentType ?d) ''application/json'' then ''json'' else ''xml'')"
    by (simp add: capturedData_full_def Let_def isXML_def isJSON_def includes_str_iff)
  ultimately show ?thesis by blast
qed

theorem xml_body_unless_json_witness:
  "req_method (example_request ''POST'' ''application/octet-stream'' (JStr ''<?xml version=1?><a/>'')) = ''POST''
   \<and> rawBody_of (example_runtime store_up :: full_capture runtime)
         (req_body (example_request ''POST'' ''application/octet-stream'' (JStr ''<?xml version=1?><a/>''))) =
       Some ''<?xml version=1?><a/>''
   \<and> startsWith (trim ''<?xml version=1?><a/>'') ''<?xml''
   \<and> (\<exists>d. captured (handler_full (example_runtime store_up)
             (example_request ''POST'' ''application/octet-stream'' (JStr ''<?xml version=1?><a/>''))) = Some d
          \<and> isXML_flag d \<and> bodyType d = ''xml'')"
proof -
  let ?r = "example_request ''POST'' ''application/octet-stream'' (JStr ''<?xml version=1?><a/>'')"
  let ?env = "example_runtime store_up :: full_capture runtime"
  have m: "req_method ?r = ''POST''"
    by (simp add: example_request_def)
  have b: "rawBody_of ?env (req_body ?r) = Some ''<?xml version=1?><a/>''"
    by (simp add: example_request_def rawBody_of_def)
  have x: "startsWith (trim ''<?xml version=1?><a/>'') ''<?xml''"
    by (simp add: startsWith_def trim_def isWhiteSpace_def)
  have c: "\<not> includes_str (contentType_of ?r) ''application/json''"
    by (simp add: eval_defs)
  from xml_body_unless_json [OF m b x] obtain d where
    d: "captured (handler_full ?env ?r) = Some d" "isXML_flag d"
       "contentType d = contentType_of ?r"
       "bodyType d = (if contains (contentType d) ''application/json'' then ''json'' else ''xml'')"
    by blast
  from c d(3,4) have "bodyType d = ''xml''"
    by (simp add: includes_str_iff)
  with m b x d(1,2) show ?thesis by blast
qed

lemma parsedBody_broken_json:
  "isJSON ctype \<Longrightarrow> JSON_parse env s = None \<Longrightarrow> parsedBody_of env ctype (JStr s) = JStr s"
  by (simp add: parsedBody_of_def)

text \<open>
  C5. For every request with a content type containing \<open>application/json\<close> whose
  string body fails JSON decoding, the record's \<open>body\<close> is the original string
  unchanged, and no error reaches the caller: the request is answered with 200 and
  \<open>success: true\<close>.
\<close>

theorem broken_json_kept:
  assumes "req_method req = ''POST''"
    and "req_body req = JStr s"
    and "contains (contentType_of req) ''application/json''"
    and "JSON_parse env s = None"
  shows "statusCode (response (handler_full env req)) = 200
       \<and> envelope_success (handler_full env req) = Some True
       \<and> map_option body (captured (handler_full env req)) = Some (JStr s)"
proof -
  let ?d = "capturedData_full env req s"
  from assms(2) have raw: "rawBody_of env (req_body req) = Some s"
    by (simp add: rawBody_of_string)
  from assms(3) have json: "isJSON (contentType_of req)"
    by (simp add: isJSON_def includes_str_iff)
  have "body ?d = parsedBody_of env (contentType_of req) (JStr s)"
    by (simp add: capturedData_full_def Let_def assms(2))
  with json assms(4) have "body ?d = JStr s"
    by (simp add: parsedBody_broken_json)
  then show ?thesis
    by (simp add: handler_full_post [OF assms(1) raw] listening_fields save_fields)
qed

theorem broken_json_kept_witness:
  "req_method (example_request ''POST'' ''application/json'' (JStr ''{oops'')) = ''POST''
   \<and> contains (contentType_of (example_request ''POST'' ''application/json'' (JStr ''{oops''))) ''application/json''
   \<and> JSON_parse (example_runtime store_up :: full_capture runtime) ''{oops'' = None
   \<and> statusCode (response (handler_full (example_runtime store_up)
         (example_request ''POST'' ''application/json'' (JStr ''{oops'')))) = 200
   \<and> envelope_success (handler_full (example_runtime store_up)
         (example_request ''POST'' ''application/json'' (JStr ''{oops''))) = Some True
   \<and> map_option body (captured (handler_full (example_runtime store_up)
         (example_request ''POST'' ''application/json'' (JStr ''{oops'')))) = Some (JStr ''{oops'')"
proof -
  let ?r = "example_request ''POST'' ''application/json'' (JStr ''{oops'')"
  let ?env = "example_runtime store_up :: full_capture runtime"
  have m: "req_method ?r = ''POST''" and b: "req_body ?r = JStr ''{oops''"
    by (simp_all add: example_request_def)
  have "includes_str (contentType_of ?r) ''application/json''"
    by (simp add: eval_defs)
  then have c: "contains (contentType_of ?r) ''application/json''"
    by (simp add: includes_str_iff)
  have p: "JSON_parse ?env ''{oops'' = None"
    by (simp add: example_runtime_def example_parse_def)
  from broken_json_kept [OF m b c p] m c p show ?thesis
    by simp
qed











lemma handler_xml_captured:
  "req_method req = ''POST'' \<Longrightarrow> rawBody_xml env (req_body req) = Inr raw \<Longrightarrow>
   captured (handler_xml env req) = Some (capturedData_xml env req raw)"
  by (simp add: handler_xml_post save_fields)

lemma extractMetadata_cases:
  "extractMetadata raw = None \<longleftrightarrow> indexOf raw ''<?xml'' = None \<or> indexOf raw ''?>'' = None"
  by (cases "indexOf raw ''<?xml''"; cases "indexOf raw ''?>''")
     (simp_all add: extractMetadata_def Let_def)

lemma extractMetadata_found:
  "(extractMetadata raw \<noteq> None) = (contains raw ''<?xml'' \<and> contains raw ''?>'')"
  unfolding extractMetadata_cases includes_str_iff [symmetric] includes_str_def by simp

lemma contains_nonempty: "contains raw (c # p) \<Longrightarrow> raw \<noteq> []"
  by (auto simp: contains_def)

lemma extractMetadata_root:
  assumes "extractMetadata raw = Some m" and "first_tag raw i"
  shows "rootElement m = tag_name raw i"
proof -
  from assms(1) obtain a b where "indexOf raw ''<?xml'' = Some a" "indexOf raw ''?>'' = Some b"
    using extractMetadata_cases [of raw] by (cases "indexOf raw ''<?xml''"; cases "indexOf raw ''?>''") auto
  with assms(1) have "rootElement m = (case matchTag raw of Some g \<Rightarrow> g | None \<Rightarrow> ''unknown'')"
    by (simp add: extractMetadata_def Let_def) (metis XMLMetadata.select_convs(2))
  with matchTag_first [OF assms(2)] show ?thesis by simp
qed


text \<open>
  The metadata is there only when both strings occur somewhere in the raw body, and,
  for a body detected as XML, whenever they do.
\<close>

lemma xmlMetadata_needs_both_strings:
  assumes "req_method req = ''POST''"
    and "rawBody_xml env (req_body req) = Inr raw"
  shows "\<exists>d. captured (handler_xml env req) = Some d
           \<and> rawBody d = or_null raw
           \<and> (xmlMetadata d \<noteq> None \<longrightarrow> contains raw ''<?xml'' \<and> contains raw ''?>'')
           \<and> (\<not> (contains raw ''<?xml'' \<and> contains raw ''?>'') \<longrightarrow> xmlMetadata d = None)
           \<and> (isXML_flag d \<and> contains raw ''<?xml'' \<and> contains raw ''?>''
                \<longrightarrow> xmlMetadata d \<noteq> None)"
proof -
  let ?d = "capturedData_xml env req raw"
  have m: "xmlMetadata ?d =
      (if isXML (contentType_of req) raw \<and> raw \<noteq> [] then extractMetadata raw else None)"
    and x: "isXML_flag ?d = isXML (contentType_of req) raw"
    and r: "rawBody ?d = or_null raw"
    by (simp_all add: capturedData_xml_def Let_def)
  have only: "contains raw ''<?xml'' \<and> contains raw ''?>''" if "xmlMetadata ?d \<noteq> None"
  proof -
    from that m have "extractMetadata raw \<noteq> None" by metis
    then show ?thesis by (simp only: extractMetadata_found)
  qed
  have populated: "xmlMetadata ?d \<noteq> None"
    if "isXML_flag ?d \<and> contains raw ''<?xml'' \<and> contains raw ''?>''"
  proof -
    from that have "raw \<noteq> []" using contains_nonempty by blast
    with that m x have "xmlMetadata ?d = extractMetadata raw" by simp
    with that show ?thesis by (simp only: extractMetadata_found)
  qed
  from only populated r handler_xml_captured [OF assms] have
    "captured (handler_xml env req) = Some ?d
     \<and> rawBody ?d = or_null raw
     \<and> (xmlMetadata ?d \<noteq> None \<longrightarrow> contains raw ''<?xml'' \<and> contains raw ''?>'')
     \<and> (\<not> (contains raw ''<?xml'' \<and> contains raw ''?>'') \<longrightarrow> xmlMetadata ?d = None)
     \<and> (isXML_flag ?d \<and> contains raw ''<?xml'' \<and> contains raw ''?>''
          \<longrightarrow> xmlMetadata ?d \<noteq> None)"
    by blast
  then show ?thesis by (rule exI [of _ ?d])
qed


text \<open>When the pair of the specification is found, the handler finds both strings.\<close>

lemma pair_found:
  assumes "spec_declaration raw = Some x"
  shows "extractMetadata raw \<noteq> None"
proof -
  from assms obtain i k where
    i: "indexOf raw ''<?xml'' = Some i" and k: "indexOf (drop i raw) ''?>'' = Some k"
    by (auto simp: spec_declaration_def split: option.splits)
  from indexOf_sound [OF k] have "startsWith (drop (k + i) raw) ''?>''"
    by simp
  from indexOf_found [OF this] obtain j where "indexOf raw ''?>'' = Some j"
    by blast
  with i show ?thesis by (simp add: extractMetadata_cases)
qed

text \<open>
  C6. For every capture record, \<open>xmlMetadata\<close> is populated only when both a
  \<open><?xml\<close> declaration and a closing \<open>?>\<close> are found in the raw body, the pair of the
  extractor: the first \<open><?xml\<close> and the first \<open>?>\<close> at or after it; when that pair
  is not found, \<open>xmlMetadata\<close> is left out (null) even if the body is detected as XML.
  The handler looks for the closing \<open>?>\<close> from the start of the body, so a \<open>?>\<close> that
  stands only before the \<open><?xml\<close> counts as found: here the body is detected as XML by
  its content type, it has no such pair, and the record has metadata all the same, with
  the empty string as declaration.
\<close>

theorem xmlMetadata_without_pair:
  "isXML (contentType_of (example_request ''POST'' ''application/xml'' (JStr ''?><?xml'')))
      ''?><?xml''
   \<and> spec_declaration ''?><?xml'' = None
   \<and> map_option isXML_flag (captured (handler_xml (example_runtime store_up)
         (example_request ''POST'' ''application/xml'' (JStr ''?><?xml'')))) = Some True
   \<and> map_option (map_option xmlDeclaration \<circ> xmlMetadata)
         (captured (handler_xml (example_runtime store_up)
            (example_request ''POST'' ''application/xml'' (JStr ''?><?xml'')))) =
       Some (Some [])"
proof -
  let ?b = "''?><?xml''"
  let ?r = "example_request ''POST'' ''application/xml'' (JStr ?b)"
  let ?env = "example_runtime store_up :: xml_capture runtime"
  have m: "req_method ?r = ''POST''"
    by (simp add: example_request_def)
  have b: "rawBody_xml ?env (req_body ?r) = Inr ?b"
    by (simp add: example_request_def rawBody_xml_def)
  have x: "isXML (contentType_of ?r) ?b"
    by (simp add: isXML_def contentType_of_def header_def or_else_def example_request_def
          includes_str_def startsWith_def)
  have s: "spec_declaration ?b = None"
    by (simp add: spec_declaration_def startsWith_def)
  have e: "map_option xmlDeclaration (extractMetadata ?b) = Some []"
    by (simp add: extractMetadata_def Let_def startsWith_def substring_def)
  from x have f: "isXML_flag (capturedData_xml ?env ?r ?b)"
    and "xmlMetadata (capturedData_xml ?env ?r ?b) = extractMetadata ?b"
    by (simp_all add: capturedData_xml_def Let_def)
  with e have "map_option (map_option xmlDeclaration \<circ> xmlMetadata)
      (captured (handler_xml ?env ?r)) = Some (Some [])"
    by (simp add: handler_xml_captured [OF m b])
  moreover from f have "map_option isXML_flag (captured (handler_xml ?env ?r)) = Some True"
    by (simp add: handler_xml_captured [OF m b])
  ultimately show ?thesis using x s by blast
qed

text \<open>
  C8. For every XML body containing both a \<open><?xml ... ?>\<close> declaration and a tag,
  \<open>xmlMetadata.rootElement\<close> is the first tag name in the body that matches the
  pattern of a letter followed by letters and digits.
\<close>

theorem rootElement_is_first_tag:
  assumes "req_method req = ''POST''"
    and "rawBody_xml env (req_body req) = Inr raw"
    and "isXML (contentType_of req) raw"
    and "contains raw ''<?xml''" and "contains raw ''?>''"
    and "first_tag raw i"
  shows "\<exists>d m. captured (handler_xml env req) = Some d
             \<and> xmlMetadata d = Some m
             \<and> rootElement m = tag_name raw i"
proof -
  let ?d = "capturedData_xml env req raw"
  from assms(4) have "raw \<noteq> []" by (rule contains_nonempty)
  with assms(3) have x: "xmlMetadata ?d = extractMetadata raw"
    by (simp add: capturedData_xml_def Let_def)
  from assms(4,5) obtain m where m: "extractMetadata raw = Some m"
    using extractMetadata_found [of raw] by blast
  from m assms(6) have "rootElement m = tag_name raw i"
    by (rule extractMetadata_root)
  with x m handler_xml_captured [OF assms(1,2)] have
    "captured (handler_xml env req) = Some ?d \<and> xmlMetadata ?d = Some m
     \<and> rootElement m = tag_name raw i"
    by simp
  then show ?thesis by blast
qed

theorem rootElement_is_first_tag_witness:
  "req_method (example_request ''POST'' ''text/plain'' (JStr ''<?xml?><root-1/>'')) = ''POST''
   \<and> isXML (contentType_of (example_request ''POST'' ''text/plain'' (JStr ''<?xml?><root-1/>'')))
        ''<?xml?><root-1/>''
   \<and> first_tag ''<?xml?><root-1/>'' 7
   \<and> tag_name ''<?xml?><root-1/>'' 7 = ''root''
   \<and> map_option (map_option rootElement \<circ> xmlMetadata)
         (captured (handler_xml (example_runtime store_up)
            (example_request ''POST'' ''text/plain'' (JStr ''<?xml?><root-1/>'')))) =
       Some (Some ''root'')"
proof -
  let ?r = "example_request ''POST'' ''text/plain'' (JStr ''<?xml?><root-1/>'')"
  let ?env = "example_runtime store_up :: xml_capture runtime"
  have m: "req_method ?r = ''POST''"
    by (simp add: example_request_def)
  have b: "rawBody_xml ?env (req_body ?r) = Inr ''<?xml?><root-1/>''"
    by (simp add: example_request_def rawBody_xml_def)
  have x: "isXML (contentType_of ?r) ''<?xml?><root-1/>''"
    by (simp add: isXML_def startsWith_def trim_def isWhiteSpace_def)
  have "includes_str ''<?xml?><root-1/>'' ''<?xml''" "includes_str ''<?xml?><root-1/>'' ''?>''"
    by (simp_all add: includes_str_def startsWith_def)
  then have c: "contains ''<?xml?><root-1/>'' ''<?xml''" "contains ''<?xml?><root-1/>'' ''?>''"
    by (simp_all add: includes_str_iff)
  have t: "first_tag ''<?xml?><root-1/>'' 7"
    by (simp add: first_tag_def tag_at_def isLetter_def All_less_Suc eval_nat_numeral)
  have n: "tag_name ''<?xml?><root-1/>'' 7 = ''root''"
    by (simp add: tag_name_def isLetter_def isLetterOrDigit_def eval_nat_numeral)
  from rootElement_is_first_tag [OF m b x c t] obtain d md where
    "captured (handler_xml ?env ?r) = Some d" "xmlMetadata d = Some md"
    "rootElement md = tag_name ''<?xml?><root-1/>'' 7"
    by blast
  with n have "map_option (map_option rootElement \<circ> xmlMetadata)
      (captured (handler_xml ?env ?r)) = Some (Some ''root'')"
    by simp
  with m x t n show ?thesis by blast
qed

lemma indexOf_drop:
  assumes "indexOf s p = Some j" and "i \<le> j"
  shows "indexOf (drop i s) p = Some (j - i)"
proof -
  from indexOf_sound [OF assms(1)] assms(2) have "startsWith (drop (j - i) (drop i s)) p"
    by simp
  from indexOf_found [OF this] obtain k where k: "k \<le> j - i" "indexOf (drop i s) p = Some k"
    by blast
  from indexOf_sound [OF k(2)] have "startsWith (drop (k + i) s) p"
    by simp
  with indexOf_least [OF assms(1), of "k + i"] have "\<not> k + i < j"
    by blast
  with k assms(2) show ?thesis by simp
qed

text \<open>
  When no \<open>?>\<close> stands before the first \<open><?xml\<close>, the declaration the handler
  extracts is the one of the specification.
\<close>

lemma declaration_when_close_follows:
  assumes "indexOf raw ''<?xml'' = Some i" and "indexOf raw ''?>'' = Some j" and "i \<le> j"
    and "extractMetadata raw = Some m"
  shows "spec_declaration raw = Some (xmlDeclaration m)"
proof -
  from indexOf_sound [OF assms(2)] have "take (length ''?>'') (drop j raw) = ''?>''"
    by (simp only: startsWith_def)
  then have "length (take (length ''?>'') (drop j raw)) = length ''?>''" by (rule arg_cong)
  then have len: "j + 2 \<le> length raw" by simp
  from assms(1,2,4) have "xmlDeclaration m = substring raw i (j + 2)"
    by (simp add: extractMetadata_def Let_def) (metis XMLMetadata.select_convs(1))
  with len assms(3) have "xmlDeclaration m = take (j + 2 - i) (drop i raw)"
    by (simp add: substring_def Let_def min_def max_def)
  moreover from indexOf_drop [OF assms(2,3)] assms(1) have
    "spec_declaration raw = Some (take (j - i + 2) (drop i raw))"
    by (simp add: spec_declaration_def)
  moreover from assms(3) have "j + 2 - i = j - i + 2" by simp
  ultimately show ?thesis by (simp only:)
qed

text \<open>
  C7. For every raw body detected as XML, not empty, in which a \<open><?xml\<close> and a \<open>?>\<close>
  at or after it both exist, the extracted declaration is the text from the first
  \<open><?xml\<close> to the first \<open>?>\<close> at or after it, both included. The handler looks for
  the first \<open>?>\<close> of the whole body, so a \<open>?>\<close> that stands before the \<open><?xml\<close>
  ends the declaration: here the body is detected as XML by its content type, the
  specification's declaration is \<open><?xml version=1?>\<close>, and the handler records the
  empty string.
\<close>

theorem declaration_cut_by_earlier_close:
  "isXML (contentType_of (example_request ''POST'' ''application/xml''
       (JStr ''<?php ?><?xml version=1?><r/>''))) ''<?php ?><?xml version=1?><r/>''
   \<and> spec_declaration ''<?php ?><?xml version=1?><r/>'' = Some ''<?xml version=1?>''
   \<and> map_option (map_option xmlDeclaration \<circ> xmlMetadata)
         (captured (handler_xml (example_runtime store_up)
            (example_request ''POST'' ''application/xml'' (JStr ''<?php ?><?xml version=1?><r/>'')))) =
       Some (Some [])"
proof -
  let ?b = "''<?php ?><?xml version=1?><r/>''"
  let ?r = "example_request ''POST'' ''application/xml'' (JStr ?b)"
  let ?env = "example_runtime store_up :: xml_capture runtime"
  have m: "req_method ?r = ''POST''"
    by (simp add: example_request_def)
  have b: "rawBody_xml ?env (req_body ?r) = Inr ?b"
    by (simp add: example_request_def rawBody_xml_def)
  have x: "isXML (contentType_of ?r) ?b"
    by (simp add: isXML_def contentType_of_def header_def or_else_def example_request_def
          includes_str_def startsWith_def)
  have s: "spec_declaration ?b = Some ''<?xml version=1?>''"
    by (simp add: spec_declaration_def startsWith_def)
  have e: "map_option xmlDeclaration (extractMetadata ?b) = Some []"
    by (simp add: extractMetadata_def Let_def startsWith_def substring_def)
  from x have "xmlMetadata (capturedData_xml ?env ?r ?b) = extractMetadata ?b"
    by (simp add: capturedData_xml_def Let_def)
  with e have "map_option (map_option xmlDeclaration \<circ> xmlMetadata)
      (captured (handler_xml ?env ?r)) = Some (Some [])"
    by (simp add: handler_xml_captured [OF m b])
  with x s show ?thesis by blast
qed

end
